theory Spec2Isabelle
  imports Complex_Main "HOL-Library.Multiset"
begin

section \<open>Conventions of the embedding\<close>

text \<open>
  The development embeds two modules of the recipe site: the unit converter of
  \<^verbatim>\<open>src/lib/utils.ts\<close> (\<^verbatim>\<open>convertUnits\<close>, \<^verbatim>\<open>scaleIngredientQuantity\<close>) and the in-memory
  query pipeline of \<^verbatim>\<open>src/lib/api.ts\<close> (\<^verbatim>\<open>getMockRecipes\<close>: filter, sort, paginate).

  \<^item> A JavaScript \<^verbatim>\<open>number\<close> is taken as an exact real: the arithmetic is the arithmetic the
    code writes, without the rounding error of each IEEE-754 operation and without the
    non-finite values. Where the code can only produce a non-finite value (a division by a
    zero serving count) the model returns \<open>None\<close>. Page limits and offsets are integers.
  \<^item> A JavaScript string is a \<open>string\<close> whose characters are the code units
    \<open>0x00\<close> to \<open>0xFF\<close>; the degree sign is \<open>CHR 0xB0\<close>. \<^verbatim>\<open>toLowerCase\<close> maps this range
    into itself.
  \<^item> An optional property (\<^verbatim>\<open>x?: T\<close>, or an omitted argument) is a \<open>T option\<close>.
  \<^item> \<^verbatim>\<open>Math.round\<close> rounds to the nearest integer, a tie going up.
\<close>

section \<open>Strings\<close>

definition lowerChar :: "char \<Rightarrow> char" where
  "lowerChar c =
     (let n = (of_char c :: nat) in
      if (65 \<le> n \<and> n \<le> 90) \<or> (192 \<le> n \<and> n \<le> 222 \<and> n \<noteq> 215)
      then char_of (n + 32) else c)"

definition toLowerCase :: "string \<Rightarrow> string" where
  "toLowerCase s = map lowerChar s"

text \<open>\<^verbatim>\<open>hay.startsWith(needle)\<close> and \<^verbatim>\<open>hay.includes(needle)\<close>.\<close>

fun startsWith :: "string \<Rightarrow> string \<Rightarrow> bool" where
  "startsWith hay [] = True"
| "startsWith [] (c # cs) = False"
| "startsWith (h # hs) (c # cs) = (h = c \<and> startsWith hs cs)"

fun includes_str :: "string \<Rightarrow> string \<Rightarrow> bool" where
  "includes_str [] needle = (needle = [])"
| "includes_str (h # hs) needle = (startsWith (h # hs) needle \<or> includes_str hs needle)"

text \<open>The relational operator \<^verbatim>\<open><\<close> on two strings: lexicographic on the code units.\<close>

fun str_lt :: "string \<Rightarrow> string \<Rightarrow> bool" where
  "str_lt [] [] = False"
| "str_lt [] (y # ys) = True"
| "str_lt (x # xs) [] = False"
| "str_lt (x # xs) (y # ys) =
     ((of_char x :: nat) < of_char y \<or> (x = y \<and> str_lt xs ys))"

text \<open>\<^verbatim>\<open>s.split(sep)\<close> for a one-character separator, and \<^verbatim>\<open>parts.join(sep)\<close>.\<close>

fun split :: "char \<Rightarrow> string \<Rightarrow> string list" where
  "split sep [] = [[]]"
| "split sep (c # cs) =
     (if c = sep then [] # split sep cs
      else (case split sep cs of
              [] \<Rightarrow> [[c]]
            | t # ts \<Rightarrow> (c # t) # ts))"

fun join :: "string \<Rightarrow> string list \<Rightarrow> string" where
  "join sep [] = []"
| "join sep [t] = t"
| "join sep (t # u # ts) = t @ sep @ join sep (u # ts)"

section \<open>Unit conversion (\<^verbatim>\<open>src/lib/utils.ts\<close>)\<close>

datatype UnitSystem = Metric | Imperial

datatype error = TypeError

text \<open>The object \<^verbatim>\<open>{ value, unit }\<close>; the field \<^verbatim>\<open>value\<close> is written \<open>val\<close>.\<close>

record Measure =
  val :: real
  unit :: string

record UnitConversion =
  metric :: Measure
  imperial :: Measure

definition degC :: string where
  "degC = [CHR 0xB0, CHR ''C'']"

definition degF :: string where
  "degF = [CHR 0xB0, CHR ''F'']"

text \<open>The own properties of the object literal \<^verbatim>\<open>conversions\<close>, in the order of the source.\<close>

definition conversions :: "(string \<times> UnitConversion) list" where
  "conversions =
    [(''g'',     \<lparr>metric = \<lparr>val = 1, unit = ''g''\<rparr>,
                  imperial = \<lparr>val = 0.035274, unit = ''oz''\<rparr>\<rparr>),
     (''kg'',    \<lparr>metric = \<lparr>val = 1, unit = ''kg''\<rparr>,
                  imperial = \<lparr>val = 2.20462, unit = ''lb''\<rparr>\<rparr>),
     (''oz'',    \<lparr>metric = \<lparr>val = 28.3495, unit = ''g''\<rparr>,
                  imperial = \<lparr>val = 1, unit = ''oz''\<rparr>\<rparr>),
     (''lb'',    \<lparr>metric = \<lparr>val = 0.453592, unit = ''kg''\<rparr>,
                  imperial = \<lparr>val = 1, unit = ''lb''\<rparr>\<rparr>),
     (''ml'',    \<lparr>metric = \<lparr>val = 1, unit = ''ml''\<rparr>,
                  imperial = \<lparr>val = 0.033814, unit = ''fl oz''\<rparr>\<rparr>),
     (''l'',     \<lparr>metric = \<lparr>val = 1, unit = ''l''\<rparr>,
                  imperial = \<lparr>val = 1.75975, unit = ''pint''\<rparr>\<rparr>),
     (''fl oz'', \<lparr>metric = \<lparr>val = 29.5735, unit = ''ml''\<rparr>,
                  imperial = \<lparr>val = 1, unit = ''fl oz''\<rparr>\<rparr>),
     (''pint'',  \<lparr>metric = \<lparr>val = 568.261, unit = ''ml''\<rparr>,
                  imperial = \<lparr>val = 1, unit = ''pint''\<rparr>\<rparr>),
     (degC,      \<lparr>metric = \<lparr>val = 1, unit = degC\<rparr>,
                  imperial = \<lparr>val = 1, unit = degF\<rparr>\<rparr>),
     (degF,      \<lparr>metric = \<lparr>val = 1, unit = degC\<rparr>,
                  imperial = \<lparr>val = 1, unit = degF\<rparr>\<rparr>)]"

text \<open>
  The property read \<^verbatim>\<open>conversions[key]\<close>. Besides its own properties, a plain object
  answers for the properties of \<^verbatim>\<open>Object.prototype\<close>; of those only \<^verbatim>\<open>constructor\<close> and
  \<^verbatim>\<open>__proto__\<close> are written without a capital letter, so only they can be the result of
  \<^verbatim>\<open>toLowerCase\<close>. Their values are truthy and have no \<^verbatim>\<open>metric\<close> or \<^verbatim>\<open>imperial\<close> property.
\<close>

datatype property = Own UnitConversion | Inherited | Undefined

definition getConversion :: "string \<Rightarrow> property" where
  "getConversion key =
     (case map_of conversions key of
        Some c \<Rightarrow> Own c
      | None \<Rightarrow> if key = ''constructor'' \<or> key = ''__proto__'' then Inherited else Undefined)"

definition Math_round :: "real \<Rightarrow> real" where
  "Math_round x = of_int \<lfloor>x + 1 / 2\<rfloor>"

definition convertUnits :: "real \<Rightarrow> string \<Rightarrow> UnitSystem \<Rightarrow> error + Measure" where
  "convertUnits quantity u targetSystem =
     (case getConversion (toLowerCase u) of
        Undefined \<Rightarrow> Inr \<lparr>val = quantity, unit = u\<rparr>
      | conversion \<Rightarrow>
          if u = degC \<and> targetSystem = Imperial
          then Inr \<lparr>val = Math_round ((quantity * 9 / 5) + 32), unit = degF\<rparr>
          else if u = degF \<and> targetSystem = Metric
          then Inr \<lparr>val = Math_round ((quantity - 32) * 5 / 9), unit = degC\<rparr>
          else (case conversion of
                  Own c \<Rightarrow>
                    (let target = (case targetSystem of Metric \<Rightarrow> metric c | Imperial \<Rightarrow> imperial c);
                         convertedValue = quantity * val target;
                         rounded = (if convertedValue < 1
                                    then Math_round (convertedValue * 100) / 100
                                    else Math_round (convertedValue * 10) / 10)
                     in Inr \<lparr>val = rounded, unit = unit target\<rparr>)
                | _ \<Rightarrow> Inl TypeError))"

text \<open>
  \<^verbatim>\<open>scaleIngredientQuantity\<close>. With \<^verbatim>\<open>originalServings\<close> zero the quotient, and with it the
  result, is \<^verbatim>\<open>Infinity\<close>, \<^verbatim>\<open>-Infinity\<close> or \<^verbatim>\<open>NaN\<close>: the model returns \<open>None\<close> there.
\<close>

definition scaleIngredientQuantity :: "real \<Rightarrow> real \<Rightarrow> real \<Rightarrow> real option" where
  "scaleIngredientQuantity originalQuantity originalServings newServings =
     (if originalServings = 0 then None
      else
        (let scaleFactor = newServings / originalServings;
             scaledQuantity = originalQuantity * scaleFactor
         in if scaledQuantity < 1 then Some (Math_round (scaledQuantity * 100) / 100)
            else if scaledQuantity < 10 then Some (Math_round (scaledQuantity * 10) / 10)
            else Some (Math_round scaledQuantity)))"

text \<open>
  Rounding as the specification words it: \<open>nearest k x r\<close> says that \<open>r\<close> is a multiple of
  \<open>1 / k\<close> at distance at most half a step from \<open>x\<close>, the upper one when \<open>x\<close> is midway.
\<close>


definition scaled :: "real \<Rightarrow> real" where
  "scaled x =
     (if x < 1 then Math_round (x * 100) / 100
      else if x < 10 then Math_round (x * 10) / 10
      else Math_round x)"


definition nearest :: "real \<Rightarrow> real \<Rightarrow> real \<Rightarrow> bool" where
  "nearest k x r = ((\<exists>j::int. r = of_int j / k) \<and> x - 1 / (2 * k) < r \<and> r \<le> x + 1 / (2 * k))"

section \<open>Recipes and queries (\<^verbatim>\<open>src/types/recipe.ts\<close>, \<^verbatim>\<open>src/lib/api.ts\<close>)\<close>

text \<open>
  The fields of \<^verbatim>\<open>Recipe\<close> that the query pipeline reads or that identify a record; the
  media, ingredient, step, author and nutrition fields pass through untouched and are left
  out. \<^verbatim>\<open>id\<close> is written \<open>recipeId\<close>. The type of \<^verbatim>\<open>difficulty\<close> is a union of string
  literals, at run time a string.
\<close>

record Recipe =
  recipeId :: string
  title :: string
  slug :: string
  description :: string
  cuisine :: string
  tags :: "string list"
  prepTimeMins :: real
  cookTimeMins :: real
  totalTimeMins :: real
  difficulty :: string
  baseServings :: real
  datePublished :: "string option"

text \<open>\<^verbatim>\<open>RecipeFilters\<close>; its fields carry the prefix \<open>f_\<close> to keep them apart from the recipe's.\<close>

record RecipeFilters =
  f_cuisine :: "string list option"
  f_tags :: "string list option"
  f_maxPrepTime :: "real option"
  f_difficulty :: "string list option"
  f_search :: "string option"

datatype SortField = Title | TotalTimeMins | DatePublished | Difficulty

datatype Direction = Asc | Desc

record RecipeSort =
  field :: SortField
  direction :: Direction

record Page =
  recipes :: "Recipe list"
  total :: nat

subsection \<open>Filtering\<close>

text \<open>
  The five guarded filter passes. A guard is a truthiness test: an absent field, an empty
  string, an empty array and the number zero all skip the pass.
\<close>

definition searchPass :: "string \<Rightarrow> Recipe list \<Rightarrow> Recipe list" where
  "searchPass s rs =
     (let searchLower = toLowerCase s in
      filter (\<lambda>recipe.
         includes_str (toLowerCase (title recipe)) searchLower \<or>
         includes_str (toLowerCase (description recipe)) searchLower \<or>
         list_ex (\<lambda>tag. includes_str (toLowerCase tag) searchLower) (tags recipe)) rs)"

definition applyFilters :: "RecipeFilters option \<Rightarrow> Recipe list \<Rightarrow> Recipe list" where
  "applyFilters filters rs0 =
     (case filters of
        None \<Rightarrow> rs0
      | Some f \<Rightarrow>
         (let rs1 = (case f_search f of
                       Some s \<Rightarrow> if s \<noteq> [] then searchPass s rs0 else rs0
                     | None \<Rightarrow> rs0);
              rs2 = (case f_cuisine f of
                       Some cs \<Rightarrow> if cs \<noteq> []
                                 then filter (\<lambda>recipe. cuisine recipe \<in> set cs) rs1
                                 else rs1
                     | None \<Rightarrow> rs1);
              rs3 = (case f_tags f of
                       Some ts \<Rightarrow> if ts \<noteq> []
                                 then filter (\<lambda>recipe.
                                        list_ex (\<lambda>tag. tag \<in> set (tags recipe)) ts) rs2
                                 else rs2
                     | None \<Rightarrow> rs2);
              rs4 = (case f_maxPrepTime f of
                       Some m \<Rightarrow> if m \<noteq> 0
                                then filter (\<lambda>recipe. prepTimeMins recipe \<le> m) rs3
                                else rs3
                     | None \<Rightarrow> rs3);
              rs5 = (case f_difficulty f of
                       Some ds \<Rightarrow> if ds \<noteq> []
                                 then filter (\<lambda>recipe. difficulty recipe \<in> set ds) rs4
                                 else rs4
                     | None \<Rightarrow> rs4)
          in rs5))"

text \<open>
  The filter as a predicate on one recipe, in the words of the specification: \<open>occursIn\<close>
  is "appears as a substring", and each field that is present and not skipped by its guard
  contributes one conjunct.
\<close>

definition occursIn :: "string \<Rightarrow> string \<Rightarrow> bool" where
  "occursIn term target = (\<exists>before after. target = before @ term @ after)"

definition matches :: "RecipeFilters \<Rightarrow> Recipe \<Rightarrow> bool" where
  "matches f r =
     ((case f_search f of
         None \<Rightarrow> True
       | Some s \<Rightarrow> s = [] \<or>
           occursIn (toLowerCase s) (toLowerCase (title r)) \<or>
           occursIn (toLowerCase s) (toLowerCase (description r)) \<or>
           (\<exists>tag \<in> set (tags r). occursIn (toLowerCase s) (toLowerCase tag))) \<and>
      (case f_cuisine f of None \<Rightarrow> True | Some cs \<Rightarrow> cs = [] \<or> cuisine r \<in> set cs) \<and>
      (case f_tags f of None \<Rightarrow> True | Some ts \<Rightarrow> ts = [] \<or> set (tags r) \<inter> set ts \<noteq> {}) \<and>
      (case f_maxPrepTime f of None \<Rightarrow> True | Some m \<Rightarrow> m = 0 \<or> prepTimeMins r \<le> m) \<and>
      (case f_difficulty f of None \<Rightarrow> True | Some ds \<Rightarrow> ds = [] \<or> difficulty r \<in> set ds))"

subsection \<open>Dates\<close>

text \<open>
  \<^verbatim>\<open>new Date(string)\<close> holds a time value in milliseconds, or \<^verbatim>\<open>NaN\<close> (\<open>None\<close>). ECMAScript
  fixes the result for the date-time string format; a complete calendar date
  \<^verbatim>\<open>YYYY-MM-DD\<close> naming an existing day is midnight UTC of that day. What any other string
  gives is left to the engine, which is the parameter \<open>engine\<close> of \<open>Date_parse\<close>.
\<close>

definition isDigit :: "char \<Rightarrow> bool" where
  "isDigit c = (48 \<le> (of_char c :: nat) \<and> (of_char c :: nat) \<le> 57)"

definition digitVal :: "char \<Rightarrow> nat" where
  "digitVal c = of_char c - 48"

definition isoCalendarDate :: "string \<Rightarrow> (nat \<times> nat \<times> nat) option" where
  "isoCalendarDate s =
     (case s of
        [y1, y2, y3, y4, h1, m1, m2, h2, d1, d2] \<Rightarrow>
          if h1 = CHR ''-'' \<and> h2 = CHR ''-'' \<and> list_all isDigit [y1, y2, y3, y4, m1, m2, d1, d2]
          then Some (1000 * digitVal y1 + 100 * digitVal y2 + 10 * digitVal y3 + digitVal y4,
                     10 * digitVal m1 + digitVal m2,
                     10 * digitVal d1 + digitVal d2)
          else None
      | _ \<Rightarrow> None)"

definition leapYear :: "nat \<Rightarrow> bool" where
  "leapYear y = (y mod 4 = 0 \<and> (y mod 100 \<noteq> 0 \<or> y mod 400 = 0))"

definition daysInMonth :: "nat \<Rightarrow> nat \<Rightarrow> nat" where
  "daysInMonth y m =
     (if m = 2 then (if leapYear y then 29 else 28)
      else if m = 4 \<or> m = 6 \<or> m = 9 \<or> m = 11 then 30 else 31)"

definition validDate :: "nat \<Rightarrow> nat \<Rightarrow> nat \<Rightarrow> bool" where
  "validDate y m d = (1 \<le> m \<and> m \<le> 12 \<and> 1 \<le> d \<and> d \<le> daysInMonth y m)"

definition daysInYear :: "nat \<Rightarrow> nat" where
  "daysInYear y = (if leapYear y then 366 else 365)"

text \<open>ECMAScript's \<^verbatim>\<open>DayFromYear\<close>, the day number of 1 January, counted from 1970.\<close>

definition dayFromYear :: "nat \<Rightarrow> int" where
  "dayFromYear y =
     365 * (int y - 1970) + (int y - 1969) div 4 - (int y - 1901) div 100 + (int y - 1601) div 400"

text \<open>The number of days of the year before the first of month \<open>m\<close>.\<close>

definition monthStart :: "nat \<Rightarrow> nat \<Rightarrow> nat" where
  "monthStart y m =
     [0, 31, 59, 90, 120, 151, 181, 212, 243, 273, 304, 334] ! (m - 1)
       + (if leapYear y \<and> 2 < m then 1 else 0)"

definition makeDay :: "nat \<Rightarrow> nat \<Rightarrow> nat \<Rightarrow> int" where
  "makeDay y m d = dayFromYear y + int (monthStart y m) + int d - 1"

definition msPerDay :: int where
  "msPerDay = 86400000"

definition Date_parse :: "(string \<Rightarrow> int option) \<Rightarrow> string \<Rightarrow> int option" where
  "Date_parse engine s =
     (case isoCalendarDate s of
        Some (y, m, d) \<Rightarrow> if validDate y m d then Some (makeDay y m d * msPerDay) else engine s
      | None \<Rightarrow> engine s)"

text \<open>
  The argument of the constructor:
  \<^verbatim>\<open>aValue?.split('/').reverse().join('-') || ''\<close>.
\<close>

definition dateArgument :: "string option \<Rightarrow> string" where
  "dateArgument v =
     (case v of
        None \<Rightarrow> []
      | Some s \<Rightarrow> (let r = join ''-'' (rev (split CHR ''/'' s)) in if r = [] then [] else r))"

text \<open>A date written as the data has it, \<^verbatim>\<open>DD/MM/YYYY\<close>, used to state properties.\<close>

definition digitChar :: "nat \<Rightarrow> char" where
  "digitChar n = char_of (48 + n mod 10)"

definition ddmmyyyy :: "nat \<Rightarrow> nat \<Rightarrow> nat \<Rightarrow> string" where
  "ddmmyyyy d m y =
     [digitChar (d div 10), digitChar d, CHR ''/'',
      digitChar (m div 10), digitChar m, CHR ''/'',
      digitChar (y div 1000), digitChar (y div 100), digitChar (y div 10), digitChar y]"

definition yyyymmdd :: "nat \<Rightarrow> nat \<Rightarrow> nat \<Rightarrow> string" where
  "yyyymmdd y m d =
     [digitChar (y div 1000), digitChar (y div 100), digitChar (y div 10), digitChar y, CHR ''-'',
      digitChar (m div 10), digitChar m, CHR ''-'',
      digitChar (d div 10), digitChar d]"

text \<open>
  The order of the calendar on (year, month, day), and an engine that recognises no string
  beyond the standard format.
\<close>

definition earlier :: "nat \<times> nat \<times> nat \<Rightarrow> nat \<times> nat \<times> nat \<Rightarrow> bool" where
  "earlier p q =
     (case p of (y, m, d) \<Rightarrow> case q of (y', m', d') \<Rightarrow>
        y < y' \<or> (y = y' \<and> (m < m' \<or> (m = m' \<and> d < d'))))"

definition strictEngine :: "string \<Rightarrow> int option" where
  "strictEngine s = None"

subsection \<open>Sorting\<close>

text \<open>
  The values the comparator reads: \<^verbatim>\<open>a[sort.field]\<close> is a string or a number, replaced by
  a \<^verbatim>\<open>Date\<close> for the field \<^verbatim>\<open>datePublished\<close>. Both operands of a comparison come from the
  same field, so \<open>js_lt\<close> meets two values of one kind; a comparison with \<^verbatim>\<open>NaN\<close> is false.
\<close>

datatype jsval = JStr string | JNum real | JDate "int option"

fun js_lt :: "jsval \<Rightarrow> jsval \<Rightarrow> bool" where
  "js_lt (JStr a) (JStr b) = str_lt a b"
| "js_lt (JNum a) (JNum b) = (a < b)"
| "js_lt (JDate (Some a)) (JDate (Some b)) = (a < b)"
| "js_lt _ _ = False"

definition sortValue :: "(string \<Rightarrow> int option) \<Rightarrow> SortField \<Rightarrow> Recipe \<Rightarrow> jsval" where
  "sortValue engine fld r =
     (case fld of
        Title \<Rightarrow> JStr (title r)
      | TotalTimeMins \<Rightarrow> JNum (totalTimeMins r)
      | Difficulty \<Rightarrow> JStr (difficulty r)
      | DatePublished \<Rightarrow> JDate (Date_parse engine (dateArgument (datePublished r))))"

definition compareRecipes :: "(string \<Rightarrow> int option) \<Rightarrow> RecipeSort \<Rightarrow> Recipe \<Rightarrow> Recipe \<Rightarrow> int" where
  "compareRecipes engine srt a b =
     (let aValue = sortValue engine (field srt) a;
          bValue = sortValue engine (field srt) b
      in if js_lt aValue bValue then (if direction srt = Asc then - 1 else 1)
         else if js_lt bValue aValue then (if direction srt = Asc then 1 else - 1)
         else 0)"

text \<open>
  \<^verbatim>\<open>Array.prototype.sort\<close> with a comparator is stable. For a comparator that orders the
  elements consistently the result is the one stable arrangement, which insertion from the
  right computes: an element goes in front of the first one it does not exceed.
\<close>

fun insertBy :: "('a \<Rightarrow> 'a \<Rightarrow> int) \<Rightarrow> 'a \<Rightarrow> 'a list \<Rightarrow> 'a list" where
  "insertBy cmp x [] = [x]"
| "insertBy cmp x (y # ys) = (if 0 < cmp x y then y # insertBy cmp x ys else x # y # ys)"

definition sortBy :: "('a \<Rightarrow> 'a \<Rightarrow> int) \<Rightarrow> 'a list \<Rightarrow> 'a list" where
  "sortBy cmp xs = foldr (insertBy cmp) xs []"

definition sortRecipes :: "(string \<Rightarrow> int option) \<Rightarrow> RecipeSort option \<Rightarrow> Recipe list \<Rightarrow> Recipe list" where
  "sortRecipes engine srt rs =
     (case srt of None \<Rightarrow> rs | Some s \<Rightarrow> sortBy (compareRecipes engine s) rs)"

subsection \<open>Pagination\<close>

text \<open>\<^verbatim>\<open>xs.slice(start, end)\<close>: a negative index counts from the end, and both are clamped.\<close>

definition slice :: "'a list \<Rightarrow> int \<Rightarrow> int option \<Rightarrow> 'a list" where
  "slice xs start end_opt =
     (let len = int (length xs);
          k = (if start < 0 then max (len + start) 0 else min start len);
          e = (case end_opt of None \<Rightarrow> len | Some e \<Rightarrow> e);
          final = (if e < 0 then max (len + e) 0 else min e len)
      in take (nat (final - k)) (drop (nat k) xs))"

definition truthy :: "int option \<Rightarrow> bool" where
  "truthy v = (case v of None \<Rightarrow> False | Some n \<Rightarrow> n \<noteq> 0)"

definition paginate :: "int option \<Rightarrow> int option \<Rightarrow> 'a list \<Rightarrow> 'a list" where
  "paginate limit offset xs =
     (if truthy offset \<or> truthy limit
      then (let start = (case offset of None \<Rightarrow> 0 | Some n \<Rightarrow> if n \<noteq> 0 then n else 0);
                end_opt = (case limit of
                             None \<Rightarrow> None
                           | Some n \<Rightarrow> if n \<noteq> 0 then Some (start + n) else None)
            in slice xs start end_opt)
      else xs)"

subsection \<open>The query\<close>

text \<open>\<^verbatim>\<open>getMockRecipes\<close> once the mock data are loaded: \<open>mockRecipes\<close> is the module's list.\<close>

definition getMockRecipes ::
  "(string \<Rightarrow> int option) \<Rightarrow> Recipe list \<Rightarrow> RecipeFilters option \<Rightarrow> RecipeSort option \<Rightarrow>
     int option \<Rightarrow> int option \<Rightarrow> Page" where
  "getMockRecipes engine mockRecipes filters srt limit offset =
     (let filteredRecipes = sortRecipes engine srt (applyFilters filters mockRecipes)
      in \<lparr>recipes = paginate limit offset filteredRecipes, total = length filteredRecipes\<rparr>)"

subsection \<open>Sample records\<close>

text \<open>Three records in the shape of the mock data, used where a property is evaluated.\<close>

definition pie :: Recipe where
  "pie = \<lparr>recipeId = ''1'', title = ''Shepherds Pie'', slug = ''shepherds-pie'',
           description = ''Lamb mince under mash'', cuisine = ''British'',
           tags = [''quick'', ''classic''], prepTimeMins = 20, cookTimeMins = 40,
           totalTimeMins = 60, difficulty = ''Medium'', baseServings = 4,
           datePublished = Some ''01/02/2024''\<rparr>"

definition stew :: Recipe where
  "stew = \<lparr>recipeId = ''2'', title = ''Bean Stew'', slug = ''bean-stew'',
            description = ''Slow beans'', cuisine = ''British'',
            tags = [''vegan''], prepTimeMins = 30, cookTimeMins = 120,
            totalTimeMins = 150, difficulty = ''Hard'', baseServings = 6,
            datePublished = Some ''15/01/2024''\<rparr>"

definition curry :: Recipe where
  "curry = \<lparr>recipeId = ''3'', title = ''Dal'', slug = ''dal'',
             description = ''Red lentils'', cuisine = ''Indian'',
             tags = [''quick''], prepTimeMins = 10, cookTimeMins = 25,
             totalTimeMins = 35, difficulty = ''Easy'', baseServings = 2,
             datePublished = Some ''soon''\<rparr>"

definition noFilters :: RecipeFilters where
  "noFilters = \<lparr>f_cuisine = None, f_tags = None, f_maxPrepTime = None,
                 f_difficulty = None, f_search = None\<rparr>"

section \<open>Temperature: properties\<close>

lemma toLowerCase_degC: "toLowerCase degC = [CHR 0xB0, CHR ''c'']"
  by code_simp

lemma toLowerCase_degF: "toLowerCase degF = [CHR 0xB0, CHR ''f'']"
  by code_simp

lemma getConversion_deg_lower:
  "getConversion [CHR 0xB0, CHR ''c''] = Undefined"
  "getConversion [CHR 0xB0, CHR ''f''] = Undefined"
  by (simp_all add: getConversion_def conversions_def degC_def degF_def)

text \<open>
  Claim C1. The claim: \<^verbatim>\<open>convertUnits(q, '\<degree>C', 'imperial')\<close> is Fahrenheit,
  \<open>round (q * 9 / 5 + 32)\<close>, and \<^verbatim>\<open>convertUnits(q, '\<degree>F', 'metric')\<close> is Celsius, the
  temperature case taking precedence over the table. In the code the table is read first,
  under the lower-cased unit, and its temperature keys carry a capital letter: the read
  finds nothing, and the quantity comes back unchanged with its unit. So freezing point,
  0 degrees Celsius, converts to 0 and not to 32.
\<close>

theorem convertUnits_temperature_unreached:
  "convertUnits q degC Imperial = Inr \<lparr>val = q, unit = degC\<rparr> \<and>
   convertUnits q degF Metric = Inr \<lparr>val = q, unit = degF\<rparr> \<and>
   convertUnits 0 degC Imperial = Inr \<lparr>val = 0, unit = degC\<rparr> \<and>
   convertUnits 100 degC Imperial = Inr \<lparr>val = 100, unit = degC\<rparr> \<and>
   convertUnits 32 degF Metric = Inr \<lparr>val = 32, unit = degF\<rparr>"
  by (simp add: convertUnits_def toLowerCase_degC toLowerCase_degF getConversion_deg_lower)

section \<open>Rounding\<close>




lemma Math_round_mono: "x \<le> y \<Longrightarrow> Math_round x \<le> Math_round y"
  unfolding Math_round_def by (simp add: floor_mono)

lemma Math_round_numeral: "Math_round (numeral k) = numeral k" "Math_round 1 = 1"
  unfolding Math_round_def by simp_all




section \<open>The conversion table: properties\<close>









section \<open>Scaling: properties\<close>


lemma nearest_unique:
  assumes "0 < k" "nearest k x r" "nearest k x r'"
  shows "r = r'"
proof -
  from assms obtain i j :: int where r: "r = of_int i / k" and r': "r' = of_int j / k"
    by (auto simp: nearest_def)
  from assms have "\<bar>r - r'\<bar> < 1 / k"
    by (auto simp: nearest_def field_simps abs_less_iff)
  then have "\<bar>real_of_int i - of_int j\<bar> < 1"
    using assms(1) by (simp add: r r' field_simps abs_less_iff flip: diff_divide_distrib)
  then have "i = j" by linarith
  then show ?thesis by (simp add: r r')
qed

lemma scaled_mono:
  assumes "x \<le> y"
  shows "scaled x \<le> scaled y"
proof -
  have a: "Math_round (z * 100) / 100 \<le> 1" if "z < 1" for z
    using Math_round_mono [of "z * 100" 100] that by (simp add: Math_round_numeral)
  have b: "1 \<le> Math_round (z * 10) / 10" if "1 \<le> z" for z
    using Math_round_mono [of 10 "z * 10"] that by (simp add: Math_round_numeral)
  have c: "Math_round (z * 10) / 10 \<le> 10" if "z < 10" for z
    using Math_round_mono [of "z * 10" 100] that by (simp add: Math_round_numeral)
  have d: "10 \<le> Math_round z" if "10 \<le> z" for z
    using Math_round_mono [of 10 z] that by (simp add: Math_round_numeral)
  have e: "Math_round (x * 100) / 100 \<le> Math_round (y * 100) / 100"
    using Math_round_mono [of "x * 100" "y * 100"] assms by (simp add: divide_right_mono)
  have f: "Math_round (x * 10) / 10 \<le> Math_round (y * 10) / 10"
    using Math_round_mono [of "x * 10" "y * 10"] assms by (simp add: divide_right_mono)
  have g: "Math_round x \<le> Math_round y"
    using assms by (rule Math_round_mono)
  consider "y < 1" | "x < 1" "1 \<le> y" "y < 10" | "x < 1" "10 \<le> y"
    | "1 \<le> x" "y < 10" | "1 \<le> x" "x < 10" "10 \<le> y" | "10 \<le> x"
    by linarith
  then show ?thesis
  proof cases
    case 1 with assms e show ?thesis by (simp add: scaled_def)
  next
    case 2 with a [of x] b [of y] show ?thesis by (simp add: scaled_def)
  next
    case 3 with a [of x] d [of y] show ?thesis by (simp add: scaled_def)
  next
    case 4 with assms f show ?thesis by (simp add: scaled_def)
  next
    case 5 with c [of x] d [of y] show ?thesis by (simp add: scaled_def)
  next
    case 6 with assms g show ?thesis by (simp add: scaled_def)
  qed
qed

lemma scale_scaled: "s \<noteq> 0 \<Longrightarrow> scaleIngredientQuantity q s n = Some (scaled (q * (n / s)))"
  by (simp add: scaleIngredientQuantity_def scaled_def Let_def)



text \<open>
  Claim C8. For a positive quantity and a positive original serving count, the scaled
  quantity does not decrease when the new serving count grows, across the tier boundaries
  at 1 and 10 as well.
\<close>

theorem scale_monotone:
  assumes "0 < q" "0 < s" "n1 \<le> n2"
  shows "\<exists>r1 r2. scaleIngredientQuantity q s n1 = Some r1 \<and>
                 scaleIngredientQuantity q s n2 = Some r2 \<and> r1 \<le> r2"
proof -
  have "n1 / s \<le> n2 / s" using assms by (simp add: divide_right_mono)
  then have "q * (n1 / s) \<le> q * (n2 / s)" using assms(1) by (intro mult_left_mono) auto
  then have "scaled (q * (n1 / s)) \<le> scaled (q * (n2 / s))" by (rule scaled_mono)
  with assms(2) show ?thesis by (simp add: scale_scaled)
qed

theorem scale_monotone_witness:
  "(0::real) < 3 \<and> (0::real) < 4 \<and> (1::real) \<le> 14 \<and>
   (\<exists>r1 r2. scaleIngredientQuantity 3 4 1 = Some r1 \<and>
            scaleIngredientQuantity 3 4 14 = Some r2 \<and> r1 \<le> r2)"
  using scale_monotone [of 3 4 1 14] by simp


section \<open>Filtering: properties\<close>

lemma startsWith_iff: "startsWith hay needle \<longleftrightarrow> (\<exists>after. hay = needle @ after)"
  by (induction hay needle rule: startsWith.induct) auto

lemma includes_str_iff: "includes_str hay needle \<longleftrightarrow> occursIn needle hay"
proof (induction hay)
  case Nil
  then show ?case by (auto simp: occursIn_def)
next
  case (Cons h hs)
  have "occursIn needle (h # hs) \<longleftrightarrow> (\<exists>after. h # hs = needle @ after) \<or> occursIn needle hs"
    unfolding occursIn_def
  proof
    assume "\<exists>before after. h # hs = before @ needle @ after"
    then obtain before after where e: "h # hs = before @ needle @ after" by blast
    show "(\<exists>after. h # hs = needle @ after) \<or> (\<exists>before after. hs = before @ needle @ after)"
    proof (cases before)
      case Nil
      with e show ?thesis by auto
    next
      case (Cons b bs)
      with e have "hs = bs @ needle @ after" by simp
      then show ?thesis by blast
    qed
  next
    assume "(\<exists>after. h # hs = needle @ after) \<or> (\<exists>before after. hs = before @ needle @ after)"
    then show "\<exists>before after. h # hs = before @ needle @ after"
    proof
      assume "\<exists>after. h # hs = needle @ after"
      then obtain after where "h # hs = [] @ needle @ after" by auto
      then show ?thesis by blast
    next
      assume "\<exists>before after. hs = before @ needle @ after"
      then obtain before after where "h # hs = (h # before) @ needle @ after" by auto
      then show ?thesis by blast
    qed
  qed
  with Cons show ?case by (simp add: startsWith_iff)
qed

lemma searchPass_filter:
  "searchPass s rs =
     filter (\<lambda>r. occursIn (toLowerCase s) (toLowerCase (title r)) \<or>
                 occursIn (toLowerCase s) (toLowerCase (description r)) \<or>
                 (\<exists>tag \<in> set (tags r). occursIn (toLowerCase s) (toLowerCase tag))) rs"
  by (simp add: searchPass_def Let_def includes_str_iff list_ex_iff)

lemma applyFilters_passes:
  "applyFilters (Some f) rs =
     filter (\<lambda>r. case f_difficulty f of None \<Rightarrow> True | Some ds \<Rightarrow> ds = [] \<or> difficulty r \<in> set ds)
    (filter (\<lambda>r. case f_maxPrepTime f of None \<Rightarrow> True | Some m \<Rightarrow> m = 0 \<or> prepTimeMins r \<le> m)
    (filter (\<lambda>r. case f_tags f of None \<Rightarrow> True | Some ts \<Rightarrow> ts = [] \<or> set (tags r) \<inter> set ts \<noteq> {})
    (filter (\<lambda>r. case f_cuisine f of None \<Rightarrow> True | Some cs \<Rightarrow> cs = [] \<or> cuisine r \<in> set cs)
    (filter (\<lambda>r. case f_search f of
         None \<Rightarrow> True
       | Some s \<Rightarrow> s = [] \<or>
           occursIn (toLowerCase s) (toLowerCase (title r)) \<or>
           occursIn (toLowerCase s) (toLowerCase (description r)) \<or>
           (\<exists>tag \<in> set (tags r). occursIn (toLowerCase s) (toLowerCase tag))) rs))))"
proof -
  have 1: "(case f_search f of Some s \<Rightarrow> if s \<noteq> [] then searchPass s xs else xs | None \<Rightarrow> xs) =
      filter (\<lambda>r. case f_search f of
         None \<Rightarrow> True
       | Some s \<Rightarrow> s = [] \<or>
           occursIn (toLowerCase s) (toLowerCase (title r)) \<or>
           occursIn (toLowerCase s) (toLowerCase (description r)) \<or>
           (\<exists>tag \<in> set (tags r). occursIn (toLowerCase s) (toLowerCase tag))) xs" for xs
    by (simp add: searchPass_filter split: option.split)
  have 2: "(case f_cuisine f of Some cs \<Rightarrow> if cs \<noteq> [] then filter (\<lambda>recipe. cuisine recipe \<in> set cs) xs else xs | None \<Rightarrow> xs) =
      filter (\<lambda>r. case f_cuisine f of None \<Rightarrow> True | Some cs \<Rightarrow> cs = [] \<or> cuisine r \<in> set cs) xs" for xs
    by (simp split: option.split)
  have 3: "(case f_tags f of Some ts \<Rightarrow> if ts \<noteq> [] then filter (\<lambda>recipe. list_ex (\<lambda>tag. tag \<in> set (tags recipe)) ts) xs else xs | None \<Rightarrow> xs) =
      filter (\<lambda>r. case f_tags f of None \<Rightarrow> True | Some ts \<Rightarrow> ts = [] \<or> set (tags r) \<inter> set ts \<noteq> {}) xs" for xs
  proof -
    have t: "list_ex (\<lambda>tag. tag \<in> set (tags r)) ts \<longleftrightarrow> set (tags r) \<inter> set ts \<noteq> {}" for r ts
      by (auto simp: list_ex_iff)
    show ?thesis by (simp add: t split: option.split)
  qed
  have 4: "(case f_maxPrepTime f of Some m \<Rightarrow> if m \<noteq> 0 then filter (\<lambda>recipe. prepTimeMins recipe \<le> m) xs else xs | None \<Rightarrow> xs) =
      filter (\<lambda>r. case f_maxPrepTime f of None \<Rightarrow> True | Some m \<Rightarrow> m = 0 \<or> prepTimeMins r \<le> m) xs" for xs
    by (simp split: option.split)
  have 5: "(case f_difficulty f of Some ds \<Rightarrow> if ds \<noteq> [] then filter (\<lambda>recipe. difficulty recipe \<in> set ds) xs else xs | None \<Rightarrow> xs) =
      filter (\<lambda>r. case f_difficulty f of None \<Rightarrow> True | Some ds \<Rightarrow> ds = [] \<or> difficulty r \<in> set ds) xs" for xs
    by (simp split: option.split)
  show ?thesis
    unfolding applyFilters_def Let_def option.case 1 2 3 4 5 ..
qed

lemma applyFilters_matches: "applyFilters (Some f) rs = filter (matches f) rs"
  unfolding applyFilters_passes filter_filter matches_def
  by (rule filter_cong) auto

text \<open>
  Claim C3, as amended. A recipe is in the filtered output exactly when it is in the input
  and satisfies \<open>matches\<close>: every field that is present and passes its guard holds for
  it (search: the lower-cased term occurs in the lower-cased title, description or some
  tag; cuisine and difficulty: membership; tags: a common tag; maxPrepTime: preparation
  time at most the bound). An absent field imposes nothing, and neither does an empty
  search string, an empty list, or a bound of zero. The output is the input filtered, so
  the recipes keep their relative order.
\<close>

theorem filter_is_matches:
  "applyFilters None rs = rs \<and> applyFilters (Some f) rs = filter (matches f) rs"
  by (simp add: applyFilters_matches) (simp add: applyFilters_def)

theorem filter_is_matches_witness:
  "applyFilters (Some \<lparr>f_cuisine = Some [''British''], f_tags = Some [''quick''],
       f_maxPrepTime = Some 20, f_difficulty = Some [''Easy'', ''Medium''],
       f_search = Some ''PIE''\<rparr>) [stew, pie, curry] = [pie] \<and>
   filter (matches \<lparr>f_cuisine = Some [''British''], f_tags = Some [''quick''],
       f_maxPrepTime = Some 20, f_difficulty = Some [''Easy'', ''Medium''],
       f_search = Some ''PIE''\<rparr>) [stew, pie, curry] = [pie]"
proof -
  have "applyFilters (Some \<lparr>f_cuisine = Some [''British''], f_tags = Some [''quick''],
       f_maxPrepTime = Some 20, f_difficulty = Some [''Easy'', ''Medium''],
       f_search = Some ''PIE''\<rparr>) [stew, pie, curry] = [pie]"
    by code_simp
  with filter_is_matches [of "[stew, pie, curry]" "\<lparr>f_cuisine = Some [''British''], f_tags = Some [''quick''],
       f_maxPrepTime = Some 20, f_difficulty = Some [''Easy'', ''Medium''],
       f_search = Some ''PIE''\<rparr>"]
  show ?thesis by simp
qed

text \<open>
  Claim C3 as stated fails for a present bound of zero: the guard skips the pass, and a
  recipe needing 20 minutes stays. An empty cuisine list, too, lets every recipe through.
\<close>

theorem filter_counterexample:
  "applyFilters (Some (noFilters\<lparr>f_maxPrepTime := Some 0\<rparr>)) [pie] = [pie] \<and>
   \<not> prepTimeMins pie \<le> 0 \<and>
   applyFilters (Some (noFilters\<lparr>f_cuisine := Some []\<rparr>)) [pie] = [pie]"
  by (simp add: applyFilters_def noFilters_def pie_def)

text \<open>
  Claim C10. The cuisine, tags and difficulty filters compare whole strings exactly: a
  recipe none of whose values equals a requested one is left out, whatever the lower-case
  forms are. So \<open>british\<close> does not select a recipe of cuisine \<open>British\<close>, while the search
  pass does ignore case.
\<close>

theorem filters_case_sensitive:
  "(f_cuisine f = Some vs \<and> vs \<noteq> [] \<and> (\<forall>v \<in> set vs. v \<noteq> cuisine r)
      \<longrightarrow> r \<notin> set (applyFilters (Some f) rs)) \<and>
   (f_tags f = Some vs \<and> vs \<noteq> [] \<and> (\<forall>v \<in> set vs. \<forall>tag \<in> set (tags r). v \<noteq> tag)
      \<longrightarrow> r \<notin> set (applyFilters (Some f) rs)) \<and>
   (f_difficulty f = Some vs \<and> vs \<noteq> [] \<and> (\<forall>v \<in> set vs. v \<noteq> difficulty r)
      \<longrightarrow> r \<notin> set (applyFilters (Some f) rs))"
  by (auto simp: applyFilters_matches matches_def)

theorem filters_case_sensitive_witness:
  "toLowerCase ''british'' = toLowerCase (cuisine pie) \<and> ''british'' \<noteq> cuisine pie \<and>
   pie \<notin> set (applyFilters (Some (noFilters\<lparr>f_cuisine := Some [''british'']\<rparr>)) [pie]) \<and>
   pie \<notin> set (applyFilters (Some (noFilters\<lparr>f_tags := Some [''Quick'']\<rparr>)) [pie]) \<and>
   pie \<notin> set (applyFilters (Some (noFilters\<lparr>f_difficulty := Some [''medium'']\<rparr>)) [pie]) \<and>
   pie \<in> set (applyFilters (Some (noFilters\<lparr>f_search := Some ''CLASSIC''\<rparr>)) [pie])"
proof -
  have l: "toLowerCase ''british'' = toLowerCase (cuisine pie)"
    by code_simp
  have s: "pie \<in> set (applyFilters (Some (noFilters\<lparr>f_search := Some ''CLASSIC''\<rparr>)) [pie])"
    by code_simp
  from l s
    filters_case_sensitive [of "noFilters\<lparr>f_cuisine := Some [''british'']\<rparr>" "[''british'']" pie "[pie]"]
    filters_case_sensitive [of "noFilters\<lparr>f_tags := Some [''Quick'']\<rparr>" "[''Quick'']" pie "[pie]"]
    filters_case_sensitive [of "noFilters\<lparr>f_difficulty := Some [''medium'']\<rparr>" "[''medium'']" pie "[pie]"]
  show ?thesis by (simp add: noFilters_def pie_def)
qed

section \<open>Pagination: properties\<close>

lemma slice_nonneg:
  assumes "0 \<le> start"
  shows "slice xs start None = drop (nat start) xs"
    and "0 \<le> n \<Longrightarrow> slice xs start (Some (start + n)) = take (nat n) (drop (nat start) xs)"
proof -
  show "slice xs start None = drop (nat start) xs"
    using assms by (auto simp: slice_def Let_def min_def)
  assume n: "0 \<le> n"
  show "slice xs start (Some (start + n)) = take (nat n) (drop (nat start) xs)"
  proof (cases "start \<le> int (length xs)")
    case True
    with assms n show ?thesis
      by (auto simp: slice_def Let_def min_def nat_diff_distrib nat_add_distrib)
  next
    case False
    with assms n show ?thesis
      by (auto simp: slice_def Let_def min_def)
  qed
qed

text \<open>
  Claim C4, as amended. With neither limit nor offset the list is returned as it is. A
  limit of zero counts as no limit and an offset of zero as no offset. For an offset
  \<open>k \<ge> 0\<close> and a limit \<open>n > 0\<close> the result is the slice from \<open>k\<close> up to \<open>k + n\<close>, to
  the end of the list without a limit. Ten records with limit 3 and offset 3 give the
  fourth to the sixth.
\<close>

theorem paginate_slice:
  "paginate None None xs = xs \<and>
   paginate (Some 0) None xs = xs \<and>
   (0 < n \<longrightarrow> paginate (Some n) None xs = take (nat n) xs) \<and>
   (0 < n \<longrightarrow> paginate (Some n) (Some 0) xs = take (nat n) xs) \<and>
   (0 \<le> k \<longrightarrow> paginate None (Some k) xs = drop (nat k) xs) \<and>
   (0 \<le> k \<longrightarrow> paginate (Some 0) (Some k) xs = drop (nat k) xs) \<and>
   (0 \<le> k \<and> 0 < n \<longrightarrow>
      paginate (Some n) (Some k) xs = take (nat n) (drop (nat k) xs)) \<and>
   paginate (Some 3) (Some 3) [1, 2, 3, 4, 5, 6, 7, 8, 9, 10 :: nat] = [4, 5, 6]"
  using slice_nonneg(1) [where start = 0 and xs = xs] slice_nonneg(1) [where start = k and xs = xs]
    slice_nonneg(2) [where start = 0 and n = n and xs = xs]
    slice_nonneg(2) [where start = k and n = n and xs = xs]
    slice_nonneg(2) [where start = 3 and n = 3 and xs = "[1, 2, 3, 4, 5, 6, 7, 8, 9, 10 :: nat]"]
  by (auto simp: paginate_def truthy_def)

theorem paginate_slice_witness:
  "(0::int) \<le> 1 \<and> (0::int) < 2 \<and> paginate (Some 2) (Some 1) ''abcde'' = ''bc'' \<and>
   paginate None (Some 1) ''abcde'' = ''bcde'' \<and> paginate (Some 2) None ''abcde'' = ''ab''"
  using paginate_slice [where n = 2 and k = 1 and xs = "''abcde''"] by simp

text \<open>
  Claim C4 as stated fails for a limit of zero: the list is not cut down to nothing.
\<close>

theorem paginate_counterexample:
  "paginate (Some 0) None [1, 2, 3 :: nat] = [1, 2, 3] \<and>
   paginate (Some 0) (Some 1) [1, 2, 3 :: nat] = [2, 3]"
  by (simp add: paginate_def truthy_def slice_def)

section \<open>Sorting: properties\<close>

lemma str_lt_irrefl: "\<not> str_lt a a"
  by (induction a) auto

lemma str_lt_trans: "str_lt a b \<Longrightarrow> str_lt b c \<Longrightarrow> str_lt a c"
proof (induction a b arbitrary: c rule: str_lt.induct)
  case (2 y ys)
  then show ?case by (cases c) auto
next
  case (4 x xs y ys)
  then show ?case by (cases c) auto
qed auto

lemma str_lt_total: "\<not> str_lt a b \<Longrightarrow> \<not> str_lt b a \<Longrightarrow> a = b"
proof (induction a b rule: str_lt.induct)
  case (4 x xs y ys)
  then have "(of_char x :: nat) = of_char y" by auto
  then have "x = y" by simp
  with 4 show ?case by auto
qed auto

lemma str_lt_asym: "str_lt a b \<Longrightarrow> \<not> str_lt b a"
  using str_lt_trans str_lt_irrefl by blast

lemma mset_insertBy: "mset (insertBy cmp x xs) = add_mset x (mset xs)"
  by (induction xs) auto

lemma mset_sortBy: "mset (sortBy cmp xs) = mset xs"
  by (induction xs) (auto simp: sortBy_def mset_insertBy)

lemma set_insertBy: "set (insertBy cmp x xs) = insert x (set xs)"
  by (induction xs) auto

lemma sorted_insertBy:
  assumes tr: "\<And>a b c. le a b \<Longrightarrow> le b c \<Longrightarrow> le a c"
    and pos: "\<And>a b. 0 < cmp a b \<Longrightarrow> le b a"
    and npos: "\<And>a b. \<not> 0 < cmp a b \<Longrightarrow> le a b"
  shows "sorted_wrt le xs \<Longrightarrow> sorted_wrt le (insertBy cmp x xs)"
proof (induction xs)
  case Nil
  then show ?case by simp
next
  case (Cons y ys)
  show ?case
  proof (cases "0 < cmp x y")
    case True
    with Cons pos [of x y] show ?thesis by (auto simp: set_insertBy)
  next
    case False
    then have "le x y" by (rule npos)
    with Cons.prems tr have "\<forall>z \<in> set ys. le x z" by auto
    with False Cons.prems \<open>le x y\<close> show ?thesis by auto
  qed
qed

lemma sorted_sortBy:
  assumes tr: "\<And>a b c. le a b \<Longrightarrow> le b c \<Longrightarrow> le a c"
    and pos: "\<And>a b. 0 < cmp a b \<Longrightarrow> le b a"
    and npos: "\<And>a b. \<not> 0 < cmp a b \<Longrightarrow> le a b"
  shows "sorted_wrt le (sortBy cmp xs)"
proof (induction xs)
  case Nil
  then show ?case by (simp add: sortBy_def)
next
  case (Cons x xs)
  have "sortBy cmp (x # xs) = insertBy cmp x (sortBy cmp xs)" by (simp add: sortBy_def)
  with Cons sorted_insertBy [of le cmp, OF tr pos npos] show ?case by simp
qed

lemma compare_difficulty:
  "compareRecipes engine \<lparr>field = Difficulty, direction = Asc\<rparr> a b =
     (if str_lt (difficulty a) (difficulty b) then - 1
      else if str_lt (difficulty b) (difficulty a) then 1 else 0)"
  by (simp add: compareRecipes_def sortValue_def)

lemma str_not_lt_trans:
  assumes "\<not> str_lt b a" "\<not> str_lt c b"
  shows "\<not> str_lt c a"
proof
  assume ca: "str_lt c a"
  show False
  proof (cases "str_lt a b")
    case True
    with ca have "str_lt c b" by (rule str_lt_trans)
    with assms show False by simp
  next
    case False
    with assms have "a = b" by (simp add: str_lt_total)
    with ca assms show False by simp
  qed
qed

text \<open>
  Claim C9. Sorting by difficulty, ascending, compares the labels as strings: the
  comparator is the lexicographic order of the two labels, the sorted list is a
  rearrangement of the input that is ascending in that order, and the three labels stand
  as Easy, Hard, Medium, which is not the order of severity.
\<close>

theorem difficulty_sort_is_lexicographic:
  "compareRecipes engine \<lparr>field = Difficulty, direction = Asc\<rparr> a b =
     (if str_lt (difficulty a) (difficulty b) then - 1
      else if str_lt (difficulty b) (difficulty a) then 1 else 0) \<and>
   sorted_wrt (\<lambda>a b. \<not> str_lt (difficulty b) (difficulty a))
     (sortRecipes engine (Some \<lparr>field = Difficulty, direction = Asc\<rparr>) rs) \<and>
   mset (sortRecipes engine (Some \<lparr>field = Difficulty, direction = Asc\<rparr>) rs) = mset rs \<and>
   str_lt ''Easy'' ''Hard'' \<and> str_lt ''Hard'' ''Medium'' \<and>
   sortRecipes engine (Some \<lparr>field = Difficulty, direction = Asc\<rparr>) [pie, stew, curry]
     = [curry, stew, pie] \<and>
   map difficulty [curry, stew, pie] = [''Easy'', ''Hard'', ''Medium'']"
proof (intro conjI)
  show "sorted_wrt (\<lambda>a b. \<not> str_lt (difficulty b) (difficulty a))
     (sortRecipes engine (Some \<lparr>field = Difficulty, direction = Asc\<rparr>) rs)"
    unfolding sortRecipes_def option.case
  proof (rule sorted_sortBy)
    fix a b c :: Recipe
    assume "\<not> str_lt (difficulty b) (difficulty a)" "\<not> str_lt (difficulty c) (difficulty b)"
    then show "\<not> str_lt (difficulty c) (difficulty a)" by (rule str_not_lt_trans)
  next
    fix a b :: Recipe
    assume "0 < compareRecipes engine \<lparr>field = Difficulty, direction = Asc\<rparr> a b"
    then show "\<not> str_lt (difficulty a) (difficulty b)"
      by (auto simp: compare_difficulty split: if_splits dest: str_lt_asym)
  next
    fix a b :: Recipe
    assume "\<not> 0 < compareRecipes engine \<lparr>field = Difficulty, direction = Asc\<rparr> a b"
    then show "\<not> str_lt (difficulty b) (difficulty a)"
      by (auto simp: compare_difficulty split: if_splits dest: str_lt_asym)
  qed
next
  show "sortRecipes engine (Some \<lparr>field = Difficulty, direction = Asc\<rparr>) [pie, stew, curry]
     = [curry, stew, pie]"
    by (simp add: sortRecipes_def sortBy_def compare_difficulty pie_def stew_def curry_def)
qed (simp_all add: compare_difficulty sortRecipes_def mset_sortBy pie_def stew_def curry_def)

section \<open>Dates: properties\<close>

lemma of_char_digitChar: "(of_char (digitChar n) :: nat) = 48 + n mod 10"
proof -
  have "(48 + n mod 10) mod 256 = 48 + n mod 10" by (simp add: mod_less)
  then show ?thesis by (simp add: digitChar_def of_char_of)
qed

lemma isDigit_digitChar: "isDigit (digitChar n)"
  by (simp add: isDigit_def of_char_digitChar)

lemma digitVal_digitChar: "digitVal (digitChar n) = n mod 10"
  by (simp add: digitVal_def of_char_digitChar)

lemma digitChar_not_sep: "digitChar n \<noteq> CHR ''/''" "digitChar n \<noteq> CHR ''-''"
proof -
  have "(of_char (digitChar n) :: nat) \<noteq> of_char CHR ''/''"
    by (simp add: of_char_digitChar)
  then show "digitChar n \<noteq> CHR ''/''" by auto
  have "(of_char (digitChar n) :: nat) \<noteq> of_char CHR ''-''"
    by (simp add: of_char_digitChar)
  then show "digitChar n \<noteq> CHR ''-''" by auto
qed

lemma dateArgument_ddmmyyyy:
  "dateArgument (Some (ddmmyyyy d m y)) =
     [digitChar (y div 1000), digitChar (y div 100), digitChar (y div 10), digitChar y, CHR ''-'',
      digitChar (m div 10), digitChar m, CHR ''-'',
      digitChar (d div 10), digitChar d]"
  by (simp add: dateArgument_def ddmmyyyy_def digitChar_not_sep Let_def)

lemma digits4:
  assumes "y < (10000::nat)"
  shows "1000 * (y div 1000 mod 10) + 100 * (y div 100 mod 10) + 10 * (y div 10 mod 10) + y mod 10 = y"
proof -
  have a: "y div 1000 mod 10 = y div 1000" using assms by simp
  have "y div 100 div 10 = y div (100 * 10)" by (simp only: div_mult2_eq)
  then have b: "y div 100 = 10 * (y div 1000) + y div 100 mod 10"
    using div_mult_mod_eq [of "y div 100" 10] by simp
  have "y div 10 div 10 = y div (10 * 10)" by (simp only: div_mult2_eq)
  then have c: "y div 10 = 10 * (y div 100) + y div 10 mod 10"
    using div_mult_mod_eq [of "y div 10" 10] by simp
  have d: "y = 10 * (y div 10) + y mod 10" by simp
  from a b c d show ?thesis by linarith
qed

lemma digits2:
  assumes "m < (100::nat)"
  shows "10 * (m div 10 mod 10) + m mod 10 = m"
proof -
  have "m div 10 mod 10 = m div 10" using assms by simp
  then show ?thesis by simp
qed

lemma isoCalendarDate_digits:
  assumes "y < 10000" "m < 100" "d < 100"
  shows "isoCalendarDate
     [digitChar (y div 1000), digitChar (y div 100), digitChar (y div 10), digitChar y, CHR ''-'',
      digitChar (m div 10), digitChar m, CHR ''-'',
      digitChar (d div 10), digitChar d] = Some (y, m, d)"
proof -
  have "1000 * (y div 1000 mod 10) + 100 * (y div 100 mod 10) + 10 * (y div 10 mod 10) + y mod 10 = y"
    using assms(1) by (rule digits4)
  moreover have "10 * (m div 10 mod 10) + m mod 10 = m"
    using assms(2) by (rule digits2)
  moreover have "10 * (d div 10 mod 10) + d mod 10 = d"
    using assms(3) by (rule digits2)
  ultimately show ?thesis
    by (simp add: isoCalendarDate_def isDigit_digitChar digitVal_digitChar)
qed

lemma daysInMonth_le: "daysInMonth y m \<le> 31"
  by (simp add: daysInMonth_def)

lemma Date_parse_ddmmyyyy:
  assumes "validDate y m d" "y < 10000"
  shows "Date_parse engine (dateArgument (Some (ddmmyyyy d m y))) = Some (makeDay y m d * msPerDay)"
proof -
  from assms(1) have "m < 100" by (simp add: validDate_def)
  moreover from assms(1) daysInMonth_le [of y m] have "d < 100" by (simp add: validDate_def)
  ultimately show ?thesis
    using assms by (simp add: Date_parse_def dateArgument_ddmmyyyy isoCalendarDate_digits)
qed

lemma div_step:
  fixes z k :: int
  assumes "0 < k"
  shows "(z + 1) div k = z div k + (if (z + 1) mod k = 0 then 1 else 0)"
proof -
  define q r where "q = z div k" and "r = z mod k"
  have z: "z = k * q + r" by (simp add: q_def r_def)
  have r: "0 \<le> r" "r < k" using assms by (simp_all add: r_def)
  show ?thesis
  proof (cases "r + 1 = k")
    case True
    then have "z + 1 = k * (q + 1) + 0" by (simp add: z algebra_simps)
    then have "(z + 1) div k = q + 1" "(z + 1) mod k = 0"
      using assms by (auto intro: int_div_pos_eq int_mod_pos_eq)
    then show ?thesis by (simp add: q_def)
  next
    case False
    with r have r': "0 \<le> r + 1" "r + 1 < k" by auto
    have "z + 1 = k * q + (r + 1)" by (simp add: z)
    with r' have "(z + 1) div k = q" "(z + 1) mod k = r + 1"
      by (auto intro: int_div_pos_eq int_mod_pos_eq)
    with r show ?thesis by (simp add: q_def)
  qed
qed


lemma shift_mod:
  fixes z :: int
  shows "(z - 1968) mod 4 = z mod 4" "(z - 1900) mod 100 = z mod 100" "(z - 1600) mod 400 = z mod 400"
proof -
  have "(z + 4 * (- 492)) mod 4 = z mod 4" by (rule mod_mult_self2)
  then show "(z - 1968) mod 4 = z mod 4" by simp
  have "(z + 100 * (- 19)) mod 100 = z mod 100" by (rule mod_mult_self2)
  then show "(z - 1900) mod 100 = z mod 100" by simp
  have "(z + 400 * (- 4)) mod 400 = z mod 400" by (rule mod_mult_self2)
  then show "(z - 1600) mod 400 = z mod 400" by simp
qed

lemma year_step4:
  fixes z :: int
  shows "(z - 1968) div 4 = (z - 1969) div 4 + (if z mod 4 = 0 then 1 else 0)"
proof -
  have "(z - 1969 + 1) div 4 = (z - 1969) div 4 + (if (z - 1969 + 1) mod 4 = 0 then 1 else 0)"
    by (rule div_step) simp
  moreover have "z - 1969 + 1 = z - 1968" by simp
  ultimately have "(z - 1968) div 4 = (z - 1969) div 4 + (if (z - 1968) mod 4 = 0 then 1 else 0)"
    by (simp only:)
  then show ?thesis by (simp only: shift_mod)
qed

lemma year_step100:
  fixes z :: int
  shows "(z - 1900) div 100 = (z - 1901) div 100 + (if z mod 100 = 0 then 1 else 0)"
proof -
  have "(z - 1901 + 1) div 100 = (z - 1901) div 100 + (if (z - 1901 + 1) mod 100 = 0 then 1 else 0)"
    by (rule div_step) simp
  moreover have "z - 1901 + 1 = z - 1900" by simp
  ultimately have "(z - 1900) div 100 = (z - 1901) div 100 + (if (z - 1900) mod 100 = 0 then 1 else 0)"
    by (simp only:)
  then show ?thesis by (simp only: shift_mod)
qed

lemma year_step400:
  fixes z :: int
  shows "(z - 1600) div 400 = (z - 1601) div 400 + (if z mod 400 = 0 then 1 else 0)"
proof -
  have "(z - 1601 + 1) div 400 = (z - 1601) div 400 + (if (z - 1601 + 1) mod 400 = 0 then 1 else 0)"
    by (rule div_step) simp
  moreover have "z - 1601 + 1 = z - 1600" by simp
  ultimately have "(z - 1600) div 400 = (z - 1601) div 400 + (if (z - 1600) mod 400 = 0 then 1 else 0)"
    by (simp only:)
  then show ?thesis by (simp only: shift_mod)
qed

lemma int_mod_0: "int y mod int k = 0 \<longleftrightarrow> y mod k = 0"
  by (metis of_nat_eq_0_iff zmod_int)

lemma mod_chain: "y mod 400 = 0 \<Longrightarrow> y mod 100 = 0" "y mod 100 = 0 \<Longrightarrow> y mod 4 = 0" for y :: nat
proof -
  have "(100::nat) dvd 400" "(4::nat) dvd 100" by simp_all
  then show "y mod 400 = 0 \<Longrightarrow> y mod 100 = 0" "y mod 100 = 0 \<Longrightarrow> y mod 4 = 0"
    by (auto simp flip: dvd_eq_mod_eq_0 elim: dvd_trans)
qed

lemma dayFromYear_Suc: "dayFromYear (Suc y) = dayFromYear y + int (daysInYear y)"
proof -
  have e: "int (Suc y) - 1969 = int y - 1968" "int (Suc y) - 1901 = int y - 1900"
    "int (Suc y) - 1601 = int y - 1600" "int (Suc y) - 1970 = int y - 1970 + 1"
    by simp_all
  have m: "int y mod 4 = 0 \<longleftrightarrow> y mod 4 = 0" "int y mod 100 = 0 \<longleftrightarrow> y mod 100 = 0"
    "int y mod 400 = 0 \<longleftrightarrow> y mod 400 = 0"
    using int_mod_0 [of y 4] int_mod_0 [of y 100] int_mod_0 [of y 400] by simp_all
  have "dayFromYear (Suc y) = dayFromYear y + 365 + (if y mod 4 = 0 then 1 else 0)
      - (if y mod 100 = 0 then 1 else 0) + (if y mod 400 = 0 then 1 else 0)"
    unfolding dayFromYear_def e year_step4 [of "int y"] year_step100 [of "int y"]
      year_step400 [of "int y"] m
    by (simp only: distrib_left)
  also have "\<dots> = dayFromYear y + int (daysInYear y)"
    using mod_chain [of y] by (auto simp: daysInYear_def leapYear_def)
  finally show ?thesis .
qed

lemma dayFromYear_mono: "y < y' \<Longrightarrow> dayFromYear y + int (daysInYear y) \<le> dayFromYear y'"
proof (induction y')
  case 0
  then show ?case by simp
next
  case (Suc y')
  show ?case
  proof (cases "y = y'")
    case True
    then show ?thesis by (simp add: dayFromYear_Suc)
  next
    case False
    with Suc have "dayFromYear y + int (daysInYear y) \<le> dayFromYear y'" by simp
    then show ?thesis by (simp add: dayFromYear_Suc)
  qed
qed

lemma month_cases:
  assumes "1 \<le> m" "m \<le> 12"
  shows "m = 1 \<or> m = 2 \<or> m = 3 \<or> m = 4 \<or> m = 5 \<or> m = 6 \<or> m = 7 \<or> m = 8 \<or> m = 9 \<or> m = 10 \<or> m = 11 \<or> m = (12::nat)"
  using assms by arith

lemma monthStart_Suc:
  assumes "1 \<le> m" "m < 12"
  shows "monthStart y (Suc m) = monthStart y m + daysInMonth y m"
proof -
  from assms have "m = 1 \<or> m = 2 \<or> m = 3 \<or> m = 4 \<or> m = 5 \<or> m = 6 \<or> m = 7 \<or> m = 8 \<or> m = 9 \<or> m = 10 \<or> m = 11"
    by arith
  then show ?thesis
    by (elim disjE) (simp_all add: monthStart_def daysInMonth_def)
qed

lemma monthStart_mono:
  assumes "1 \<le> m" "m < m'" "m' \<le> 12"
  shows "monthStart y m + daysInMonth y m \<le> monthStart y m'"
  using assms(2,3)
proof (induction m')
  case 0
  then show ?case by simp
next
  case (Suc k)
  show ?case
  proof (cases "m = k")
    case True
    with assms(1) Suc.prems show ?thesis by (simp add: monthStart_Suc)
  next
    case False
    with Suc have "monthStart y m + daysInMonth y m \<le> monthStart y k" by simp
    moreover have "monthStart y (Suc k) = monthStart y k + daysInMonth y k"
      using assms(1) Suc.prems False by (intro monthStart_Suc) auto
    ultimately show ?thesis by simp
  qed
qed

lemma monthStart_end:
  assumes "1 \<le> m" "m \<le> 12"
  shows "monthStart y m + daysInMonth y m \<le> daysInYear y"
  using month_cases [OF assms]
  by (elim disjE) (simp_all add: monthStart_def daysInMonth_def daysInYear_def)

lemma makeDay_less:
  assumes "validDate y m d" "validDate y' m' d'" "earlier (y, m, d) (y', m', d')"
  shows "makeDay y m d < makeDay y' m' d'"
proof -
  from assms(1) have v: "1 \<le> m" "m \<le> 12" "1 \<le> d" "d \<le> daysInMonth y m"
    by (simp_all add: validDate_def)
  from assms(2) have v': "1 \<le> m'" "m' \<le> 12" "1 \<le> d'" "d' \<le> daysInMonth y' m'"
    by (simp_all add: validDate_def)
  from assms(3) consider "y < y'" | "y = y'" "m < m'" | "y = y'" "m = m'" "d < d'"
    by (auto simp: earlier_def)
  then show ?thesis
  proof cases
    case 1
    then have "dayFromYear y + int (daysInYear y) \<le> dayFromYear y'" by (rule dayFromYear_mono)
    moreover from v monthStart_end [of m y] have "monthStart y m + d \<le> daysInYear y" by simp
    ultimately show ?thesis using v' by (simp add: makeDay_def)
  next
    case 2
    with v v' monthStart_mono [of m m' y] have "monthStart y m + d \<le> monthStart y m'" by simp
    with 2 v' show ?thesis by (simp add: makeDay_def)
  next
    case 3
    then show ?thesis by (simp add: makeDay_def)
  qed
qed

lemma earlier_total: "\<not> earlier p q \<Longrightarrow> \<not> earlier q p \<Longrightarrow> p = q"
  by (cases p; cases q) (auto simp: earlier_def)

lemma earlier_asym: "earlier p q \<Longrightarrow> \<not> earlier q p"
  by (cases p; cases q) (auto simp: earlier_def)

lemma compare_dates:
  assumes "validDate y m d" "y < 10000" "validDate y' m' d'" "y' < 10000"
    and "datePublished a = Some (ddmmyyyy d m y)" "datePublished b = Some (ddmmyyyy d' m' y')"
  shows "compareRecipes engine \<lparr>field = DatePublished, direction = dir\<rparr> a b =
     (if earlier (y, m, d) (y', m', d') then (if dir = Asc then - 1 else 1)
      else if earlier (y', m', d') (y, m, d) then (if dir = Asc then 1 else - 1)
      else 0)"
proof -
  have a: "sortValue engine DatePublished a = JDate (Some (makeDay y m d * msPerDay))"
    using assms by (simp add: sortValue_def Date_parse_ddmmyyyy)
  have b: "sortValue engine DatePublished b = JDate (Some (makeDay y' m' d' * msPerDay))"
    using assms by (simp add: sortValue_def Date_parse_ddmmyyyy)
  have lt: "js_lt (sortValue engine DatePublished a) (sortValue engine DatePublished b)
      \<longleftrightarrow> makeDay y m d < makeDay y' m' d'"
    by (simp add: a b msPerDay_def)
  have gt: "js_lt (sortValue engine DatePublished b) (sortValue engine DatePublished a)
      \<longleftrightarrow> makeDay y' m' d' < makeDay y m d"
    by (simp add: a b msPerDay_def)
  consider "earlier (y, m, d) (y', m', d')" | "earlier (y', m', d') (y, m, d)"
    | "(y, m, d) = (y', m', d')"
    using earlier_total by blast
  then show ?thesis
  proof cases
    case 1
    with assms have "makeDay y m d < makeDay y' m' d'" by (intro makeDay_less)
    with 1 show ?thesis by (simp add: compareRecipes_def lt gt)
  next
    case 2
    with assms have "makeDay y' m' d' < makeDay y m d" by (intro makeDay_less)
    with 2 earlier_asym [OF 2] show ?thesis by (simp add: compareRecipes_def lt gt)
  next
    case 3
    then have "\<not> earlier (y, m, d) (y', m', d')" "\<not> earlier (y', m', d') (y, m, d)"
      by (auto simp: earlier_def)
    with 3 show ?thesis by (simp add: compareRecipes_def lt gt)
  qed
qed

lemma sample_dates:
  "datePublished pie = Some (ddmmyyyy 1 2 2024)" "datePublished stew = Some (ddmmyyyy 15 1 2024)"
  by code_simp+

lemma sample_valid: "validDate 2024 2 1" "validDate 2024 1 15"
  by (simp_all add: validDate_def daysInMonth_def leapYear_def)

text \<open>
  Claim C6. For two recipes dated \<^verbatim>\<open>DD/MM/YYYY\<close> with existing days, the comparator turns
  each date into \<^verbatim>\<open>YYYY-MM-DD\<close>, which parses to midnight UTC of that day, and orders the
  recipes as the calendar orders the two days: the earlier first when ascending, the later
  first when descending, and 0 for the same day. Whatever the engine does with other
  strings plays no part. Sorted descending, the recipe of 01/02/2024 stands before the one
  of 15/01/2024, from either input order.
\<close>

theorem date_sort_is_chronological:
  "(validDate y m d \<and> y < 10000 \<and> validDate y' m' d' \<and> y' < 10000 \<and>
    datePublished a = Some (ddmmyyyy d m y) \<and> datePublished b = Some (ddmmyyyy d' m' y') \<longrightarrow>
      dateArgument (datePublished a) = yyyymmdd y m d \<and>
      Date_parse engine (yyyymmdd y m d) = Some (makeDay y m d * msPerDay) \<and>
      compareRecipes engine \<lparr>field = DatePublished, direction = dir\<rparr> a b =
        (if earlier (y, m, d) (y', m', d') then (if dir = Asc then - 1 else 1)
         else if earlier (y', m', d') (y, m, d) then (if dir = Asc then 1 else - 1)
         else 0)) \<and>
   sortRecipes engine (Some \<lparr>field = DatePublished, direction = Desc\<rparr>) [stew, pie] = [pie, stew] \<and>
   sortRecipes engine (Some \<lparr>field = DatePublished, direction = Desc\<rparr>) [pie, stew] = [pie, stew]"
proof (intro conjI impI)
  have c: "compareRecipes engine \<lparr>field = DatePublished, direction = Desc\<rparr> stew pie = 1"
    "compareRecipes engine \<lparr>field = DatePublished, direction = Desc\<rparr> pie stew = - 1"
    using compare_dates [OF sample_valid(2) _ sample_valid(1) _ sample_dates(2) sample_dates(1), of engine Desc]
      compare_dates [OF sample_valid(1) _ sample_valid(2) _ sample_dates(1) sample_dates(2), of engine Desc]
    by (simp_all add: earlier_def)
  show "sortRecipes engine (Some \<lparr>field = DatePublished, direction = Desc\<rparr>) [stew, pie] = [pie, stew]"
    by (simp add: sortRecipes_def sortBy_def c)
  show "sortRecipes engine (Some \<lparr>field = DatePublished, direction = Desc\<rparr>) [pie, stew] = [pie, stew]"
    by (simp add: sortRecipes_def sortBy_def c)
next
  assume h: "validDate y m d \<and> y < 10000 \<and> validDate y' m' d' \<and> y' < 10000 \<and>
    datePublished a = Some (ddmmyyyy d m y) \<and> datePublished b = Some (ddmmyyyy d' m' y')"
  then show "compareRecipes engine \<lparr>field = DatePublished, direction = dir\<rparr> a b =
        (if earlier (y, m, d) (y', m', d') then (if dir = Asc then - 1 else 1)
         else if earlier (y', m', d') (y, m, d) then (if dir = Asc then 1 else - 1)
         else 0)"
    by (intro compare_dates) simp_all
  from h show "dateArgument (datePublished a) = yyyymmdd y m d"
    by (simp add: dateArgument_ddmmyyyy yyyymmdd_def)
  from h Date_parse_ddmmyyyy [of y m d engine]
  show "Date_parse engine (yyyymmdd y m d) = Some (makeDay y m d * msPerDay)"
    by (simp add: dateArgument_ddmmyyyy yyyymmdd_def)
qed

theorem date_sort_is_chronological_witness:
  "validDate 2024 2 1 \<and> validDate 2024 1 15 \<and>
   datePublished pie = Some (ddmmyyyy 1 2 2024) \<and> datePublished stew = Some (ddmmyyyy 15 1 2024) \<and>
   dateArgument (datePublished pie) = ''2024-02-01'' \<and>
   earlier (2024, 1, 15) (2024, 2, 1) \<and>
   compareRecipes strictEngine \<lparr>field = DatePublished, direction = Desc\<rparr> pie stew = - 1 \<and>
   compareRecipes strictEngine \<lparr>field = DatePublished, direction = Asc\<rparr> pie stew = 1"
proof -
  have i: "yyyymmdd 2024 2 1 = ''2024-02-01''" by code_simp
  from sample_valid sample_dates i
    date_sort_is_chronological [of 2024 2 1 2024 1 15 pie stew strictEngine Desc]
    date_sort_is_chronological [of 2024 2 1 2024 1 15 pie stew strictEngine Asc]
  show ?thesis by (simp add: earlier_def)
qed





end
